theory Spec2Isabelle
  imports Complex_Main "HOL-Library.AList"
begin

section \<open>Cell values\<close>

text \<open>
  A numeric cell of a pandas column. \<open>NaN\<close> is the missing value, \<open>PInf\<close> and
  \<open>NInf\<close> are the two infinities of float64, and \<open>Fin q\<close> is a finite number. A finite
  float64 is represented by the exact rational it stands for: the special values are
  produced exactly as IEEE-754 produces them, the rounding of finite results and the
  sign of zero are not represented (every zero is the positive one).
\<close>

datatype val = NaN | PInf | NInf | Fin rat

definition inf_of_sign :: "rat \<Rightarrow> val" where
  "inf_of_sign a = (if 0 < a then PInf else if a < 0 then NInf else NaN)"

fun fneg :: "val \<Rightarrow> val" where
  "fneg NaN = NaN"
| "fneg PInf = NInf"
| "fneg NInf = PInf"
| "fneg (Fin a) = Fin (- a)"

fun fadd :: "val \<Rightarrow> val \<Rightarrow> val" where
  "fadd NaN y = NaN"
| "fadd x NaN = NaN"
| "fadd PInf NInf = NaN"
| "fadd NInf PInf = NaN"
| "fadd PInf y = PInf"
| "fadd NInf y = NInf"
| "fadd (Fin a) PInf = PInf"
| "fadd (Fin a) NInf = NInf"
| "fadd (Fin a) (Fin b) = Fin (a + b)"

definition fsub :: "val \<Rightarrow> val \<Rightarrow> val" where
  "fsub x y = fadd x (fneg y)"

fun fmul :: "val \<Rightarrow> val \<Rightarrow> val" where
  "fmul NaN y = NaN"
| "fmul x NaN = NaN"
| "fmul PInf PInf = PInf"
| "fmul PInf NInf = NInf"
| "fmul NInf PInf = NInf"
| "fmul NInf NInf = PInf"
| "fmul PInf (Fin b) = inf_of_sign b"
| "fmul NInf (Fin b) = inf_of_sign (- b)"
| "fmul (Fin a) PInf = inf_of_sign a"
| "fmul (Fin a) NInf = inf_of_sign (- a)"
| "fmul (Fin a) (Fin b) = Fin (a * b)"

text \<open>
  Float division does not raise: a finite non-zero number over zero is an infinity of
  the number's sign, zero over zero is \<open>NaN\<close>. Every division of the function is a
  float division: its operands are \<open>int64\<close> or \<open>float64\<close> columns and scalars, and an
  integer operand is converted to a float first.
\<close>

fun fdiv :: "val \<Rightarrow> val \<Rightarrow> val" where
  "fdiv NaN y = NaN"
| "fdiv x NaN = NaN"
| "fdiv PInf PInf = NaN"
| "fdiv PInf NInf = NaN"
| "fdiv NInf PInf = NaN"
| "fdiv NInf NInf = NaN"
| "fdiv PInf (Fin b) = (if b < 0 then NInf else PInf)"
| "fdiv NInf (Fin b) = (if b < 0 then PInf else NInf)"
| "fdiv (Fin a) PInf = Fin 0"
| "fdiv (Fin a) NInf = Fin 0"
| "fdiv (Fin a) (Fin b) = (if b = 0 then inf_of_sign a else Fin (a / b))"

section \<open>Exceptions\<close>

text \<open>
  What a statement of the function can raise. \<open>DateParseError\<close> stands for the
  exception of \<open>pd.to_datetime\<close> on a label that is no date.

  \<open>OutsideInt64\<close> is no exception of Python. A count or a population that does not
  fit a signed 64-bit integer makes pandas give the column the dtype \<open>uint64\<close> or
  \<open>object\<close>; the arithmetic on such a column is Python's own arithmetic of unbounded
  integers, whose division can raise \<open>OverflowError\<close> or \<open>ZeroDivisionError\<close>,
  depending on the values. That arithmetic is not followed here: the run stops with
  \<open>OutsideInt64\<close> at the first \<open>diff()\<close> or \<open>sum()\<close> of such a column, and nothing is
  stated about the result of the code on such an input.
\<close>

datatype error =
    KeyError string
  | DateParseError string
  | ValueError string
  | TypeError string
  | OutsideInt64

section \<open>Series\<close>

text \<open>
  The dtype of a column that pandas builds from Python integers and missing values
  (the columns of \<open>pd.DataFrame(historical_data)\<close> and
  \<open>pd.DataFrame(countries_data)\<close>, the only ones of which the function takes
  \<open>diff()\<close> and \<open>sum()\<close>): \<open>int64\<close> when no value is missing, \<open>float64\<close> when one is
  (the missing value is the float \<open>NaN\<close>), and neither when a number does not fit
  64 bits.
\<close>

datatype dtype = Int64 | Float64 | Object

definition int64 :: "int \<Rightarrow> bool" where
  "int64 n \<longleftrightarrow> - (2 ^ 63) \<le> n \<and> n < 2 ^ 63"

fun fits_int64 :: "val \<Rightarrow> bool" where
  "fits_int64 (Fin q) = (- (2 ^ 63) \<le> q \<and> q < 2 ^ 63)"
| "fits_int64 x = True"

definition dtype_of :: "val list \<Rightarrow> dtype" where
  "dtype_of xs =
     (if \<not> list_all fits_int64 xs then Object
      else if NaN \<in> set xs then Float64 else Int64)"

text \<open>
  Arithmetic on \<open>int64\<close> wraps around: the result is the representative of the exact
  result modulo \<open>2 ^ 64\<close> between \<open>- 2 ^ 63\<close> and \<open>2 ^ 63 - 1\<close>.
\<close>

definition wrap64 :: "int \<Rightarrow> int" where
  "wrap64 n = (n + 2 ^ 63) mod 2 ^ 64 - 2 ^ 63"

text \<open>The integer in a cell of an \<open>int64\<close> column.\<close>

fun int_of :: "val \<Rightarrow> int" where
  "int_of (Fin q) = \<lfloor>q\<rfloor>"
| "int_of x = 0"

text \<open>
  \<open>Series.shift(periods)\<close> for a non-negative number of periods: the values move down,
  the first rows become \<open>NaN\<close>, the length is kept (an \<open>int64\<close> column becomes a
  \<open>float64\<close> one).
\<close>

definition shift :: "nat \<Rightarrow> val list \<Rightarrow> val list" where
  "shift periods xs = take (length xs) (replicate periods NaN @ xs)"

text \<open>Arithmetic of two \<open>float64\<close> series over the same index, and of a series and a scalar.\<close>

definition series_sub :: "val list \<Rightarrow> val list \<Rightarrow> val list" where
  "series_sub xs ys = map2 fsub xs ys"

definition series_div :: "val list \<Rightarrow> val list \<Rightarrow> val list" where
  "series_div xs ys = map2 fdiv xs ys"

definition series_mul_scalar :: "val list \<Rightarrow> val \<Rightarrow> val list" where
  "series_mul_scalar xs k = map (\<lambda>x. fmul x k) xs"

definition series_div_scalar :: "val list \<Rightarrow> val \<Rightarrow> val list" where
  "series_div_scalar xs k = map (\<lambda>x. fdiv x k) xs"

text \<open>
  \<open>Series.diff()\<close>: each row minus the row before it; the first row has none. The
  result is a \<open>float64\<close> column. On a \<open>float64\<close> column the subtraction is the float
  one. On an \<open>int64\<close> column pandas subtracts the two integers in \<open>int64\<close>, where the
  difference wraps around, and stores the result as a float.
\<close>

fun sub_int64 :: "val \<Rightarrow> val \<Rightarrow> val" where
  "sub_int64 (Fin a) (Fin b) = Fin (of_int (wrap64 (\<lfloor>a\<rfloor> - \<lfloor>b\<rfloor>)))"
| "sub_int64 x y = NaN"

definition diff :: "val list \<Rightarrow> error + val list" where
  "diff xs =
     (case dtype_of xs of
        Object \<Rightarrow> Inl OutsideInt64
      | Float64 \<Rightarrow> Inr (series_sub xs (shift 1 xs))
      | Int64 \<Rightarrow> Inr (map2 sub_int64 xs (shift 1 xs)))"

text \<open>
  \<open>Series.rolling(window).mean()\<close> with the default \<open>min_periods = window\<close>: the
  window of row \<open>i\<close> is the rows \<open>i - window + 1 .. i\<close> that exist; its observations
  are the finite values in it (pandas replaces the infinities by \<open>NaN\<close> before it
  aggregates); the result is their mean when there are at least \<open>window\<close> of them, and
  \<open>NaN\<close> otherwise.
\<close>

fun observations :: "val list \<Rightarrow> rat list" where
  "observations [] = []"
| "observations (Fin a # xs) = a # observations xs"
| "observations (x # xs) = observations xs"

definition mean :: "rat list \<Rightarrow> rat" where
  "mean qs = sum_list qs / of_nat (length qs)"

definition window_at :: "nat \<Rightarrow> val list \<Rightarrow> nat \<Rightarrow> val list" where
  "window_at window xs i = drop (Suc i - window) (take (Suc i) xs)"

definition rolling_mean :: "nat \<Rightarrow> val list \<Rightarrow> val list" where
  "rolling_mean window xs =
     map (\<lambda>i. let obs = observations (window_at window xs i)
              in if window \<le> length obs then Fin (mean obs) else NaN)
         [0..<length xs]"

text \<open>
  \<open>Series.sum()\<close> with the default \<open>skipna = True\<close>. On a \<open>float64\<close> column the
  missing values are left out and the rest is added as floats (a column of missing
  values only sums to 0). On an \<open>int64\<close> column, which has no missing value, the
  integers are added in \<open>int64\<close>, where the sum wraps around.
\<close>

definition series_sum :: "val list \<Rightarrow> error + val" where
  "series_sum xs =
     (case dtype_of xs of
        Object \<Rightarrow> Inl OutsideInt64
      | Float64 \<Rightarrow> Inr (foldl fadd (Fin 0) (filter (\<lambda>x. x \<noteq> NaN) xs))
      | Int64 \<Rightarrow> Inr (Fin (of_int (wrap64 (sum_list (map int_of xs))))))"

section \<open>Data frames\<close>

text \<open>
  A Python \<open>dict\<close> with string keys, in insertion order, as an association list
  (\<open>map_of\<close> reads it). A data frame is its index labels and its columns in order,
  every column as long as the index.
\<close>

type_synonym 'v pydict = "(string \<times> 'v) list"

record ('i, 'c) dataframe =
  index :: "'i list"
  columns :: "(string \<times> 'c list) list"


text \<open>
  The union of several label lists without sorting: every label once, in the order of
  its first appearance.
\<close>

definition union_indexes :: "'a list list \<Rightarrow> 'a list" where
  "union_indexes kss = rev (remdups (rev (concat kss)))"

text \<open>
  \<open>pd.DataFrame(d)\<close> for a dict of dicts: one column per outer key, the index is the union
  of the inner keys, and a cell whose column has no value for its label is \<open>NaN\<close>.
\<close>

definition cell_of_dict :: "int pydict \<Rightarrow> string \<Rightarrow> val" where
  "cell_of_dict col k = (case map_of col k of None \<Rightarrow> NaN | Some n \<Rightarrow> Fin (of_int n))"

definition DataFrame_dict :: "int pydict pydict \<Rightarrow> (string, val) dataframe" where
  "DataFrame_dict d =
     (let idx = union_indexes (map (\<lambda>(c, col). map fst col) d)
      in \<lparr>index = idx, columns = map (\<lambda>(c, col). (c, map (cell_of_dict col) idx)) d\<rparr>)"

text \<open>
  \<open>pd.DataFrame(rows)\<close> for a list of dicts: one row per dict, one column per key that
  occurs in some row; a key that a row lacks, and a \<open>null\<close> value (\<open>None\<close>), are missing
  values of the column.
\<close>

definition cell_of_record :: "int option pydict \<Rightarrow> string \<Rightarrow> val" where
  "cell_of_record row c = (case map_of row c of Some (Some n) \<Rightarrow> Fin (of_int n) | _ \<Rightarrow> NaN)"

definition DataFrame_records :: "int option pydict list \<Rightarrow> (nat, val) dataframe" where
  "DataFrame_records rows =
     \<lparr>index = [0..<length rows],
      columns = map (\<lambda>c. (c, map (\<lambda>row. cell_of_record row c) rows))
                    (union_indexes (map (map fst) rows))\<rparr>"

text \<open>\<open>df[c]\<close> raises \<open>KeyError\<close> when the frame has no column \<open>c\<close>.\<close>

definition getitem :: "('i, 'c) dataframe \<Rightarrow> string \<Rightarrow> error + 'c list" where
  "getitem df c = (case map_of (columns df) c of None \<Rightarrow> Inl (KeyError c) | Some vs \<Rightarrow> Inr vs)"

text \<open>
  \<open>df[c] = series\<close>: a column of that name is replaced where it stands, a new name is
  appended as the last column.
\<close>

definition setitem :: "('i, 'c) dataframe \<Rightarrow> string \<Rightarrow> 'c list \<Rightarrow> ('i, 'c) dataframe" where
  "setitem df c vs = df\<lparr>columns := AList.update c vs (columns df)\<rparr>"

text \<open>
  \<open>pd.to_datetime(index)\<close>: every label is parsed; a label that is no date raises. The
  parser of date strings is the library's, and is a parameter here.
\<close>

fun to_datetime :: "(string \<Rightarrow> 'd option) \<Rightarrow> string list \<Rightarrow> error + 'd list" where
  "to_datetime parse [] = Inr []"
| "to_datetime parse (k # ks) =
     (case parse k of
        None \<Rightarrow> Inl (DateParseError k)
      | Some d \<Rightarrow> (case to_datetime parse ks of Inl e \<Rightarrow> Inl e | Inr ds \<Rightarrow> Inr (d # ds)))"

text \<open>
  \<open>df.reset_index()\<close>: the index becomes the first column, named \<open>index\<close>, or \<open>level_0\<close>
  when the frame has a column \<open>index\<close> already (and it raises when that name is taken
  too); the new index counts the rows.
\<close>

datatype 'd cell = Timestamp 'd | Number val

definition reset_index :: "('d, val) dataframe \<Rightarrow> error + (nat, 'd cell) dataframe" where
  "reset_index df =
     (let name = (if map_of (columns df) ''index'' = None then ''index'' else ''level_0'')
      in if map_of (columns df) name \<noteq> None
         then Inl (ValueError name)
         else Inr \<lparr>index = [0..<length (index df)],
                   columns = (name, map Timestamp (index df))
                             # map (\<lambda>(c, vs). (c, map Number vs)) (columns df)\<rparr>)"

text \<open>\<open>df.rename(columns=m, inplace=True)\<close>: every column name that \<open>m\<close> maps is replaced.\<close>

definition rename :: "(string \<rightharpoonup> string) \<Rightarrow> ('i, 'c) dataframe \<Rightarrow> ('i, 'c) dataframe" where
  "rename m df =
     df\<lparr>columns := map (\<lambda>(c, vs). (case m c of None \<Rightarrow> c | Some c' \<Rightarrow> c', vs)) (columns df)\<rparr>"

section \<open>The transformation\<close>

text \<open>
  \<open>transform_data(historical_data, countries_data)\<close>, statement by statement. The
  historical data is a dict of series (\<open>cases\<close>, \<open>deaths\<close>, ...), each a dict from a date
  string to a count; the country data is a list of dicts, of whose fields a number or
  \<open>null\<close> is kept. Every \<open>df[c]\<close> that can raise is a branch.
\<close>

text \<open>An exception leaves the function at the statement that raises it.\<close>

definition and_then :: "error + 'a \<Rightarrow> ('a \<Rightarrow> error + 'b) \<Rightarrow> error + 'b" where
  "and_then m f = (case m of Inl e \<Rightarrow> Inl e | Inr x \<Rightarrow> f x)"

definition transform_data ::
  "(string \<Rightarrow> 'd option) \<Rightarrow> int pydict pydict \<Rightarrow> int option pydict list
     \<Rightarrow> error + (nat, 'd cell) dataframe" where
  "transform_data parse historical_data countries_data =
     (let df0 = DataFrame_dict historical_data in
      and_then (to_datetime parse (index df0)) (\<lambda>dates.
      let df1 = \<lparr>index = dates, columns = columns df0\<rparr>;
          df_countries = DataFrame_records countries_data in
      and_then (getitem df1 ''cases'') (\<lambda>cases1.
      and_then (diff cases1) (\<lambda>diff_cases1.
      let df2 = setitem df1 ''new_cases'' diff_cases1 in
      and_then (getitem df2 ''deaths'') (\<lambda>deaths2.
      and_then (diff deaths2) (\<lambda>diff_deaths2.
      let df3 = setitem df2 ''new_deaths'' diff_deaths2 in
      and_then (getitem df3 ''new_cases'') (\<lambda>new_cases3.
      and_then (getitem df3 ''cases'') (\<lambda>cases3.
      let df4 = setitem df3 ''growth_rate''
                  (series_mul_scalar (series_div new_cases3 (shift 1 cases3)) (Fin 100)) in
      and_then (getitem df4 ''new_cases'') (\<lambda>new_cases4.
      let df5 = setitem df4 ''cases_ma7'' (rolling_mean 7 new_cases4) in
      and_then (getitem df5 ''new_deaths'') (\<lambda>new_deaths5.
      let df6 = setitem df5 ''deaths_ma7'' (rolling_mean 7 new_deaths5) in
      and_then (getitem df_countries ''population'') (\<lambda>population.
      and_then (series_sum population) (\<lambda>total_population.
      and_then (getitem df6 ''cases'') (\<lambda>cases6.
      let df7 = setitem df6 ''cases_per_million''
                  (series_mul_scalar (series_div_scalar cases6 total_population) (Fin 1000000)) in
      and_then (getitem df7 ''deaths'') (\<lambda>deaths7.
      let df8 = setitem df7 ''deaths_per_million''
                  (series_mul_scalar (series_div_scalar deaths7 total_population) (Fin 1000000)) in
      and_then (reset_index df8) (\<lambda>df9.
      Inr (rename [''index'' \<mapsto> ''date''] df9))))))))))))))))"

section \<open>The transformation over a store\<close>

text \<open>
  The objects the function works on. The arguments are references to the caller's
  dict of series and list of country entries; a data frame is an object of its own,
  and the historical frame holds date labels as strings until its index is replaced.
\<close>

datatype 'd object =
    Dict "int pydict pydict"
  | List "int option pydict list"
  | Frame "(string, val) dataframe"
  | DatedFrame "('d, val) dataframe"
  | CountryFrame "(nat, val) dataframe"
  | ResultFrame "(nat, 'd cell) dataframe"

text \<open>
  A store maps the addresses in use to objects; \<open>next_free\<close> is the next address a
  constructor takes.
\<close>

record 'd store =
  objects :: "nat \<Rightarrow> 'd object option"
  next_free :: nat

text \<open>
  A statement runs on a store and either raises or gives a value and the new store.
\<close>

type_synonym ('a, 'd) prog = "'d store \<Rightarrow> error + 'a \<times> 'd store"

definition return :: "'a \<Rightarrow> ('a, 'd) prog" where
  "return x s = Inr (x, s)"

definition lift :: "error + 'a \<Rightarrow> ('a, 'd) prog" where
  "lift r s = (case r of Inl e \<Rightarrow> Inl e | Inr x \<Rightarrow> Inr (x, s))"

definition seq :: "('a, 'd) prog \<Rightarrow> ('a \<Rightarrow> ('b, 'd) prog) \<Rightarrow> ('b, 'd) prog" where
  "seq p f s = (case p s of Inl e \<Rightarrow> Inl e | Inr (x, s') \<Rightarrow> f x s')"

text \<open>
  A constructor (\<open>pd.DataFrame(...)\<close>, \<open>reset_index()\<close>) puts its result at a new address; an
  assignment into an object (\<open>df.index = ...\<close>, \<open>df[c] = ...\<close>, \<open>inplace=True\<close>) replaces the
  object at its address; reading a variable loads the object it refers to.
\<close>

definition new :: "'d object \<Rightarrow> (nat, 'd) prog" where
  "new obj s =
     Inr (next_free s,
          \<lparr>objects = (objects s)(next_free s \<mapsto> obj), next_free = Suc (next_free s)\<rparr>)"

definition put :: "nat \<Rightarrow> 'd object \<Rightarrow> (unit, 'd) prog" where
  "put a obj s = Inr ((), s\<lparr>objects := (objects s)(a \<mapsto> obj)\<rparr>)"

definition load_dict :: "nat \<Rightarrow> (int pydict pydict, 'd) prog" where
  "load_dict a s = (case objects s a of Some (Dict d) \<Rightarrow> Inr (d, s) | _ \<Rightarrow> Inl (TypeError ''dict''))"

definition load_list :: "nat \<Rightarrow> (int option pydict list, 'd) prog" where
  "load_list a s = (case objects s a of Some (List l) \<Rightarrow> Inr (l, s) | _ \<Rightarrow> Inl (TypeError ''list''))"

definition load_frame :: "nat \<Rightarrow> ((string, val) dataframe, 'd) prog" where
  "load_frame a s =
     (case objects s a of Some (Frame df) \<Rightarrow> Inr (df, s) | _ \<Rightarrow> Inl (TypeError ''DataFrame''))"

definition load_dated :: "nat \<Rightarrow> (('d, val) dataframe, 'd) prog" where
  "load_dated a s =
     (case objects s a of Some (DatedFrame df) \<Rightarrow> Inr (df, s) | _ \<Rightarrow> Inl (TypeError ''DataFrame''))"

definition load_countries :: "nat \<Rightarrow> ((nat, val) dataframe, 'd) prog" where
  "load_countries a s =
     (case objects s a of Some (CountryFrame df) \<Rightarrow> Inr (df, s) | _ \<Rightarrow> Inl (TypeError ''DataFrame''))"

definition load_result :: "nat \<Rightarrow> ((nat, 'd cell) dataframe, 'd) prog" where
  "load_result a s =
     (case objects s a of Some (ResultFrame df) \<Rightarrow> Inr (df, s) | _ \<Rightarrow> Inl (TypeError ''DataFrame''))"

text \<open>
  \<open>df[c] = rhs\<close> for the frame at address \<open>a\<close>: the right-hand side is computed from the
  frame as it is, and the frame is changed in place.
\<close>

definition setitem_at ::
  "nat \<Rightarrow> string \<Rightarrow> (('d, val) dataframe \<Rightarrow> error + val list) \<Rightarrow> (unit, 'd) prog" where
  "setitem_at a c rhs =
     seq (load_dated a) (\<lambda>df.
     seq (lift (rhs df)) (\<lambda>vs.
     put a (DatedFrame (setitem df c vs))))"

text \<open>
  \<open>transform_data\<close> on the store, statement by statement: \<open>historical_data\<close> and
  \<open>countries_data\<close> are the addresses of the two arguments, the value is the address of
  the returned frame.
\<close>

definition transform_data_store ::
  "(string \<Rightarrow> 'd option) \<Rightarrow> nat \<Rightarrow> nat \<Rightarrow> (nat, 'd) prog" where
  "transform_data_store parse historical_data countries_data =
     seq (load_dict historical_data) (\<lambda>h.
     seq (new (Frame (DataFrame_dict h))) (\<lambda>df_historical.
     seq (load_frame df_historical) (\<lambda>df.
     seq (lift (to_datetime parse (index df))) (\<lambda>dates.
     seq (put df_historical (DatedFrame \<lparr>index = dates, columns = columns df\<rparr>)) (\<lambda>_.
     seq (load_list countries_data) (\<lambda>c.
     seq (new (CountryFrame (DataFrame_records c))) (\<lambda>df_countries.
     seq (setitem_at df_historical ''new_cases''
        (\<lambda>df. and_then (getitem df ''cases'') (\<lambda>cases. diff cases))) (\<lambda>_.
     seq (setitem_at df_historical ''new_deaths''
        (\<lambda>df. and_then (getitem df ''deaths'') (\<lambda>deaths. diff deaths))) (\<lambda>_.
     seq (setitem_at df_historical ''growth_rate''
        (\<lambda>df. and_then (getitem df ''new_cases'') (\<lambda>new_cases.
              and_then (getitem df ''cases'') (\<lambda>cases.
              Inr (series_mul_scalar (series_div new_cases (shift 1 cases)) (Fin 100)))))) (\<lambda>_.
     seq (setitem_at df_historical ''cases_ma7''
        (\<lambda>df. and_then (getitem df ''new_cases'') (\<lambda>new_cases. Inr (rolling_mean 7 new_cases)))) (\<lambda>_.
     seq (setitem_at df_historical ''deaths_ma7''
        (\<lambda>df. and_then (getitem df ''new_deaths'') (\<lambda>new_deaths. Inr (rolling_mean 7 new_deaths)))) (\<lambda>_.
     seq (load_countries df_countries) (\<lambda>dfc.
     seq (lift (getitem dfc ''population'')) (\<lambda>population.
     seq (lift (series_sum population)) (\<lambda>total_population.
     seq (setitem_at df_historical ''cases_per_million''
        (\<lambda>df. and_then (getitem df ''cases'') (\<lambda>cases.
              Inr (series_mul_scalar (series_div_scalar cases total_population) (Fin 1000000))))) (\<lambda>_.
     seq (setitem_at df_historical ''deaths_per_million''
        (\<lambda>df. and_then (getitem df ''deaths'') (\<lambda>deaths.
              Inr (series_mul_scalar (series_div_scalar deaths total_population) (Fin 1000000))))) (\<lambda>_.
     seq (load_dated df_historical) (\<lambda>df.
     seq (lift (reset_index df)) (\<lambda>df9.
     seq (new (ResultFrame df9)) (\<lambda>result.
     seq (load_result result) (\<lambda>r.
     seq (put result (ResultFrame (rename [''index'' \<mapsto> ''date''] r))) (\<lambda>_.
     return result))))))))))))))))))))))"

text \<open>
  A statement writes only at or above address \<open>n\<close> when every run that starts with
  \<open>n\<close> at most the next free address leaves each object below \<open>n\<close> as it was (and its
  value then satisfies \<open>Q\<close>).
\<close>

definition writes_above :: "nat \<Rightarrow> ('a \<Rightarrow> bool) \<Rightarrow> ('a, 'd) prog \<Rightarrow> bool" where
  "writes_above n Q p \<longleftrightarrow>
     (\<forall>s x s'. n \<le> next_free s \<and> p s = Inr (x, s') \<longrightarrow>
        n \<le> next_free s' \<and> (\<forall>a < n. objects s' a = objects s a) \<and> Q x)"

section \<open>Reading the result\<close>





text \<open>
  The inputs on which no statement of \<open>transform_data\<close> raises: every date label
  parses; the historical data has the series \<open>cases\<close> and \<open>deaths\<close>, and every count
  of them fits \<open>int64\<close>; some country entry has a \<open>population\<close> field, and every
  population fits \<open>int64\<close>; and \<open>reset_index\<close> finds a free name for the date column.
\<close>

definition no_raise ::
  "(string \<Rightarrow> 'd option) \<Rightarrow> int pydict pydict \<Rightarrow> int option pydict list \<Rightarrow> bool" where
  "no_raise parse historical_data countries_data \<longleftrightarrow>
     (\<forall>k \<in> set (index (DataFrame_dict historical_data)). parse k \<noteq> None) \<and>
     (case getitem (DataFrame_dict historical_data) ''cases'' of
        Inl e \<Rightarrow> False | Inr cases \<Rightarrow> list_all fits_int64 cases) \<and>
     (case getitem (DataFrame_dict historical_data) ''deaths'' of
        Inl e \<Rightarrow> False | Inr deaths \<Rightarrow> list_all fits_int64 deaths) \<and>
     (case getitem (DataFrame_records countries_data) ''population'' of
        Inl e \<Rightarrow> False | Inr population \<Rightarrow> list_all fits_int64 population) \<and>
     (map_of historical_data ''index'' = None \<or> map_of historical_data ''level_0'' = None)"




section \<open>Facts about series\<close>

lemma length_shift: "length (shift n xs) = length xs"
  by (simp add: shift_def)






lemma fits_int64_of_int: "fits_int64 (Fin (of_int n)) \<longleftrightarrow> int64 n"
proof -
  have "(- (2 ^ 63) \<le> (of_int n :: rat)) = (- (2 ^ 63) \<le> n)"
    by (metis of_int_le_iff of_int_minus of_int_numeral of_int_power)
  moreover have "((of_int n :: rat) < 2 ^ 63) = (n < 2 ^ 63)"
    by (metis of_int_less_iff of_int_numeral of_int_power)
  ultimately show ?thesis
    by (simp only: fits_int64.simps int64_def)
qed

lemma diff_Inr_iff: "(\<exists>ds. diff xs = Inr ds) \<longleftrightarrow> list_all fits_int64 xs"
  by (simp add: diff_def dtype_of_def)

lemma diff_fits: "diff xs = Inr ds \<Longrightarrow> list_all fits_int64 xs"
  using diff_Inr_iff by blast

lemma length_diff: "diff xs = Inr ds \<Longrightarrow> length ds = length xs"
  by (auto simp add: diff_def dtype_of_def series_sub_def length_shift split: if_splits)





lemma length_rolling_mean: "length (rolling_mean w xs) = length xs"
  by (simp add: rolling_mean_def)






section \<open>Facts about data frames\<close>

lemma getitem_setitem_same: "getitem (setitem df c vs) c = Inr vs"
  by (simp add: getitem_def setitem_def update_conv')

lemma getitem_setitem_other: "c' \<noteq> c \<Longrightarrow> getitem (setitem df c vs) c' = getitem df c'"
  by (simp add: getitem_def setitem_def update_conv')

lemma index_setitem: "index (setitem df c vs) = index df"
  by (simp add: setitem_def)

lemma and_then_Inr_iff: "and_then m f = Inr y \<longleftrightarrow> (\<exists>x. m = Inr x \<and> f x = Inr y)"
  by (cases m) (simp_all add: and_then_def)

lemma and_then_Inr: "and_then (Inr x) f = f x"
  by (simp add: and_then_def)

lemma getitem_Inr_iff: "getitem df c = Inr vs \<longleftrightarrow> map_of (columns df) c = Some vs"
  by (simp add: getitem_def split: option.splits)

lemma getitem_reindexed:
  "getitem \<lparr>index = i, columns = columns df\<rparr> c = getitem df c"
  by (simp add: getitem_def)

lemma to_datetime_Inr:
  "to_datetime parse ks = Inr ds \<Longrightarrow> map parse ks = map Some ds"
  by (induction ks arbitrary: ds) (auto split: option.splits sum.splits)

lemma to_datetime_length: "to_datetime parse ks = Inr ds \<Longrightarrow> length ds = length ks"
  using to_datetime_Inr [of parse ks ds] by (metis length_map)

lemma getitem_reset_index:
  assumes "reset_index df = Inr df9" "c \<noteq> ''index''" "c \<noteq> ''level_0''"
  shows "getitem df9 c = map_sum id (map Number) (getitem df c)"
proof -
  have "map_of (map (\<lambda>(c, vs). (c, map Number vs)) (columns df)) c
        = map_option (map Number) (map_of (columns df) c)"
    by (induction "columns df") (auto simp add: map_of_map)
  then show ?thesis
    using assms
    by (auto simp add: reset_index_def getitem_def Let_def split: if_splits option.splits)
qed

lemma index_reset_index:
  "reset_index df = Inr df9 \<Longrightarrow> index df9 = [0..<length (index df)]"
  by (auto simp add: reset_index_def Let_def split: if_splits)

lemma map_of_rename:
  "m c = None \<Longrightarrow> \<forall>k. m k \<noteq> Some c \<Longrightarrow>
   map_of (map (\<lambda>(k, vs). (case m k of None \<Rightarrow> k | Some k' \<Rightarrow> k', vs)) cs) c
   = map_of cs c"
  by (induction cs) (auto split: option.splits)

lemma getitem_rename_gen:
  "m c = None \<Longrightarrow> \<forall>k. m k \<noteq> Some c \<Longrightarrow> getitem (rename m df) c = getitem df c"
  unfolding getitem_def rename_def by (simp add: map_of_rename)

lemma getitem_rename:
  "c \<noteq> ''index'' \<Longrightarrow> c \<noteq> ''date'' \<Longrightarrow>
   getitem (rename [''index'' \<mapsto> ''date''] df) c = getitem df c"
  by (rule getitem_rename_gen) auto

lemma index_rename: "index (rename m df) = index df"
  by (simp add: rename_def)

lemma index_DataFrame_dict:
  "index (DataFrame_dict h) = union_indexes (map (\<lambda>(c, col). map fst col) h)"
  by (simp add: DataFrame_dict_def Let_def)

lemma map_of_columns_DataFrame_dict:
  "map_of (columns (DataFrame_dict h)) c
   = map_option (\<lambda>col. map (cell_of_dict col) (index (DataFrame_dict h))) (map_of h c)"
proof -
  have "map_of (map (\<lambda>(c, col). (c, f col)) h) c = map_option f (map_of h c)" for f :: "int pydict \<Rightarrow> val list"
    by (induction h) auto
  then show ?thesis
    by (simp add: DataFrame_dict_def Let_def)
qed

lemma getitem_DataFrame_dict:
  "getitem (DataFrame_dict h) c =
     (case map_of h c of
        None \<Rightarrow> Inl (KeyError c)
      | Some col \<Rightarrow> Inr (map (cell_of_dict col) (index (DataFrame_dict h))))"
  by (simp add: getitem_def map_of_columns_DataFrame_dict split: option.splits)

lemma length_getitem_DataFrame_dict:
  "getitem (DataFrame_dict h) c = Inr vs \<Longrightarrow> length vs = length (index (DataFrame_dict h))"
  by (auto simp add: getitem_DataFrame_dict split: option.splits)

lemma set_union_indexes: "set (union_indexes kss) = \<Union> (set ` set kss)"
  by (simp add: union_indexes_def)

lemma distinct_union_indexes: "distinct (union_indexes kss)"
  by (simp add: union_indexes_def)

lemma length_union_indexes: "length (union_indexes kss) = card (\<Union> (set ` set kss))"
  using distinct_card [OF distinct_union_indexes, of kss] by (simp add: set_union_indexes)

lemma map_of_columns_DataFrame_records:
  "map_of (columns (DataFrame_records rows)) c =
     (if \<exists>row \<in> set rows. map_of row c \<noteq> None
      then Some (map (\<lambda>row. cell_of_record row c) rows) else None)"
proof -
  have "(c \<in> set (union_indexes (map (map fst) rows))) = (\<exists>row \<in> set rows. map_of row c \<noteq> None)"
    by (auto simp add: set_union_indexes map_of_eq_None_iff)
  then show ?thesis
    by (auto simp add: DataFrame_records_def map_of_map_restrict restrict_map_def)
qed

lemma getitem_DataFrame_records:
  "getitem (DataFrame_records rows) c =
     (if \<exists>row \<in> set rows. map_of row c \<noteq> None
      then Inr (map (\<lambda>row. cell_of_record row c) rows) else Inl (KeyError c))"
  by (simp add: getitem_def map_of_columns_DataFrame_records)

lemma to_datetime_Inr_iff:
  "(\<exists>ds. to_datetime parse ks = Inr ds) \<longleftrightarrow> (\<forall>k \<in> set ks. parse k \<noteq> None)"
  by (induction ks) (auto split: option.splits sum.splits)

lemma reset_index_Inr_iff:
  "(\<exists>df9. reset_index df = Inr df9) \<longleftrightarrow>
   (map_of (columns df) ''index'' = None \<or> map_of (columns df) ''level_0'' = None)"
  by (auto simp add: reset_index_def Let_def)




lemma series_sum_Inr_iff: "(\<exists>t. series_sum xs = Inr t) \<longleftrightarrow> list_all fits_int64 xs"
  by (simp add: series_sum_def dtype_of_def)

section \<open>What the transformation returns\<close>

lemma transform_data_Inr:
  assumes "transform_data parse h c = Inr out"
  shows "\<exists>dates cases deaths new_cases new_deaths population total_population df9.
    to_datetime parse (index (DataFrame_dict h)) = Inr dates \<and>
    getitem (DataFrame_dict h) ''cases'' = Inr cases \<and>
    getitem (DataFrame_dict h) ''deaths'' = Inr deaths \<and>
    diff cases = Inr new_cases \<and>
    diff deaths = Inr new_deaths \<and>
    getitem (DataFrame_records c) ''population'' = Inr population \<and>
    series_sum population = Inr total_population \<and>
    reset_index
      (setitem (setitem (setitem (setitem (setitem (setitem (setitem
         \<lparr>index = dates, columns = columns (DataFrame_dict h)\<rparr>
         ''new_cases'' new_cases)
         ''new_deaths'' new_deaths)
         ''growth_rate'' (series_mul_scalar (series_div new_cases (shift 1 cases)) (Fin 100)))
         ''cases_ma7'' (rolling_mean 7 new_cases))
         ''deaths_ma7'' (rolling_mean 7 new_deaths))
         ''cases_per_million'' (series_mul_scalar (series_div_scalar cases total_population) (Fin 1000000)))
         ''deaths_per_million'' (series_mul_scalar (series_div_scalar deaths total_population) (Fin 1000000))) = Inr df9 \<and>
    out = rename [''index'' \<mapsto> ''date''] df9"
  using assms
  unfolding transform_data_def Let_def and_then_Inr_iff
  by (auto simp add: getitem_setitem_same getitem_setitem_other getitem_reindexed)

lemma transform_data_sources:
  assumes "transform_data parse h c = Inr out"
  obtains dates cases deaths new_cases new_deaths population total_population where
    "to_datetime parse (index (DataFrame_dict h)) = Inr dates"
    "getitem (DataFrame_dict h) ''cases'' = Inr cases"
    "getitem (DataFrame_dict h) ''deaths'' = Inr deaths"
    "diff cases = Inr new_cases"
    "diff deaths = Inr new_deaths"
    "getitem (DataFrame_records c) ''population'' = Inr population"
    "series_sum population = Inr total_population"
proof -
  from transform_data_Inr [OF assms]
  obtain dates cases deaths new_cases new_deaths population total_population df9 where
    d: "to_datetime parse (index (DataFrame_dict h)) = Inr dates"
    and cs: "getitem (DataFrame_dict h) ''cases'' = Inr cases"
    and ds: "getitem (DataFrame_dict h) ''deaths'' = Inr deaths"
    and nc: "diff cases = Inr new_cases"
    and nd: "diff deaths = Inr new_deaths"
    and pop: "getitem (DataFrame_records c) ''population'' = Inr population"
    and tot: "series_sum population = Inr total_population"
    by (elim exE conjE)
  show thesis
    by (rule that [OF d cs ds nc nd pop tot])
qed

lemma transform_data_frame:
  assumes "transform_data parse h c = Inr out"
    and d: "to_datetime parse (index (DataFrame_dict h)) = Inr dates"
    and cs: "getitem (DataFrame_dict h) ''cases'' = Inr cases"
    and ds: "getitem (DataFrame_dict h) ''deaths'' = Inr deaths"
    and nc: "diff cases = Inr new_cases"
    and nd: "diff deaths = Inr new_deaths"
    and pop: "getitem (DataFrame_records c) ''population'' = Inr population"
    and tot: "series_sum population = Inr total_population"
  shows "\<exists>df9. reset_index
      (setitem (setitem (setitem (setitem (setitem (setitem (setitem
         \<lparr>index = dates, columns = columns (DataFrame_dict h)\<rparr>
         ''new_cases'' new_cases)
         ''new_deaths'' new_deaths)
         ''growth_rate'' (series_mul_scalar (series_div new_cases (shift 1 cases)) (Fin 100)))
         ''cases_ma7'' (rolling_mean 7 new_cases))
         ''deaths_ma7'' (rolling_mean 7 new_deaths))
         ''cases_per_million'' (series_mul_scalar (series_div_scalar cases total_population) (Fin 1000000)))
         ''deaths_per_million'' (series_mul_scalar (series_div_scalar deaths total_population) (Fin 1000000))) = Inr df9 \<and>
    out = rename [''index'' \<mapsto> ''date''] df9"
proof -
  from transform_data_Inr [OF assms(1)]
  obtain dates' cases' deaths' new_cases' new_deaths' population' total_population' df9 where
    d': "to_datetime parse (index (DataFrame_dict h)) = Inr dates'"
    and cs': "getitem (DataFrame_dict h) ''cases'' = Inr cases'"
    and ds': "getitem (DataFrame_dict h) ''deaths'' = Inr deaths'"
    and nc': "diff cases' = Inr new_cases'"
    and nd': "diff deaths' = Inr new_deaths'"
    and pop': "getitem (DataFrame_records c) ''population'' = Inr population'"
    and tot': "series_sum population' = Inr total_population'"
    and r: "reset_index
      (setitem (setitem (setitem (setitem (setitem (setitem (setitem
         \<lparr>index = dates', columns = columns (DataFrame_dict h)\<rparr>
         ''new_cases'' new_cases')
         ''new_deaths'' new_deaths')
         ''growth_rate'' (series_mul_scalar (series_div new_cases' (shift 1 cases')) (Fin 100)))
         ''cases_ma7'' (rolling_mean 7 new_cases'))
         ''deaths_ma7'' (rolling_mean 7 new_deaths'))
         ''cases_per_million'' (series_mul_scalar (series_div_scalar cases' total_population') (Fin 1000000)))
         ''deaths_per_million'' (series_mul_scalar (series_div_scalar deaths' total_population') (Fin 1000000))) = Inr df9"
    and out: "out = rename [''index'' \<mapsto> ''date''] df9"
    by (elim exE conjE)
  have e1: "dates' = dates" "cases' = cases" "deaths' = deaths" "population' = population"
    using d d' cs cs' ds ds' pop pop' by simp_all
  have e2: "new_cases' = new_cases" "new_deaths' = new_deaths" "total_population' = total_population"
    using nc nc' nd nd' tot tot' unfolding e1 by simp_all
  from r out show ?thesis
    unfolding e1 e2 by (intro exI [of _ df9] conjI)
qed

lemma transform_data_columns:
  assumes "transform_data parse h c = Inr out"
    and d: "to_datetime parse (index (DataFrame_dict h)) = Inr dates"
    and cs: "getitem (DataFrame_dict h) ''cases'' = Inr cases"
    and ds: "getitem (DataFrame_dict h) ''deaths'' = Inr deaths"
    and nc: "diff cases = Inr new_cases"
    and nd: "diff deaths = Inr new_deaths"
    and pop: "getitem (DataFrame_records c) ''population'' = Inr population"
    and tot: "series_sum population = Inr total_population"
  shows "index out = [0..<length dates]"
    and "getitem out ''cases'' = Inr (map Number cases)"
    and "getitem out ''deaths'' = Inr (map Number deaths)"
    and "getitem out ''new_cases'' = Inr (map Number new_cases)"
    and "getitem out ''new_deaths'' = Inr (map Number new_deaths)"
    and "getitem out ''growth_rate'' =
       Inr (map Number (series_mul_scalar (series_div new_cases (shift 1 cases)) (Fin 100)))"
    and "getitem out ''cases_ma7'' = Inr (map Number (rolling_mean 7 new_cases))"
    and "getitem out ''deaths_ma7'' = Inr (map Number (rolling_mean 7 new_deaths))"
    and "getitem out ''cases_per_million'' =
       Inr (map Number (series_mul_scalar (series_div_scalar cases total_population) (Fin 1000000)))"
    and "getitem out ''deaths_per_million'' =
       Inr (map Number (series_mul_scalar (series_div_scalar deaths total_population) (Fin 1000000)))"
proof -
  from transform_data_frame [OF assms] obtain df9 where
    r: "reset_index
      (setitem (setitem (setitem (setitem (setitem (setitem (setitem
         \<lparr>index = dates, columns = columns (DataFrame_dict h)\<rparr>
         ''new_cases'' new_cases)
         ''new_deaths'' new_deaths)
         ''growth_rate'' (series_mul_scalar (series_div new_cases (shift 1 cases)) (Fin 100)))
         ''cases_ma7'' (rolling_mean 7 new_cases))
         ''deaths_ma7'' (rolling_mean 7 new_deaths))
         ''cases_per_million'' (series_mul_scalar (series_div_scalar cases total_population) (Fin 1000000)))
         ''deaths_per_million'' (series_mul_scalar (series_div_scalar deaths total_population) (Fin 1000000))) = Inr df9"
    and out: "out = rename [''index'' \<mapsto> ''date''] df9"
    by (elim exE conjE)
  note col = getitem_rename getitem_reset_index [OF r] getitem_setitem_same
    getitem_setitem_other getitem_reindexed
  show "index out = [0..<length dates]"
    using index_reset_index [OF r] by (simp add: out index_rename index_setitem)
  show "getitem out ''cases'' = Inr (map Number cases)"
    by (simp add: out col cs)
  show "getitem out ''deaths'' = Inr (map Number deaths)"
    by (simp add: out col ds)
  show "getitem out ''new_cases'' = Inr (map Number new_cases)"
    by (simp add: out col)
  show "getitem out ''new_deaths'' = Inr (map Number new_deaths)"
    by (simp add: out col)
  show "getitem out ''growth_rate'' =
       Inr (map Number (series_mul_scalar (series_div new_cases (shift 1 cases)) (Fin 100)))"
    by (simp add: out col)
  show "getitem out ''cases_ma7'' = Inr (map Number (rolling_mean 7 new_cases))"
    by (simp add: out col)
  show "getitem out ''deaths_ma7'' = Inr (map Number (rolling_mean 7 new_deaths))"
    by (simp add: out col)
  show "getitem out ''cases_per_million'' =
       Inr (map Number (series_mul_scalar (series_div_scalar cases total_population) (Fin 1000000)))"
    by (simp add: out col)
  show "getitem out ''deaths_per_million'' =
       Inr (map Number (series_mul_scalar (series_div_scalar deaths total_population) (Fin 1000000)))"
    by (simp add: out col)
qed

lemma map_of_enriched:
  "k = ''index'' \<or> k = ''level_0'' \<Longrightarrow>
   map_of (columns (setitem (setitem (setitem (setitem (setitem (setitem (setitem
         \<lparr>index = dates, columns = cols\<rparr>
         ''new_cases'' v1) ''new_deaths'' v2) ''growth_rate'' v3) ''cases_ma7'' v4)
         ''deaths_ma7'' v5) ''cases_per_million'' v6) ''deaths_per_million'' v7)) k
   = map_of cols k"
  by (auto simp add: setitem_def update_conv')

lemma transform_data_returns:
  assumes "no_raise parse h c"
  shows "\<exists>out. transform_data parse h c = Inr out"
proof -
  from assms obtain dates where d: "to_datetime parse (index (DataFrame_dict h)) = Inr dates"
    using to_datetime_Inr_iff [of parse "index (DataFrame_dict h)"] by (auto simp add: no_raise_def)
  from assms obtain cases where cs: "getitem (DataFrame_dict h) ''cases'' = Inr cases"
    and fc: "list_all fits_int64 cases"
    by (auto simp add: no_raise_def split: sum.splits)
  from assms obtain deaths where ds: "getitem (DataFrame_dict h) ''deaths'' = Inr deaths"
    and fd: "list_all fits_int64 deaths"
    by (auto simp add: no_raise_def split: sum.splits)
  from assms obtain pop where pop: "getitem (DataFrame_records c) ''population'' = Inr pop"
    and fp: "list_all fits_int64 pop"
    by (auto simp add: no_raise_def split: sum.splits)
  from fc obtain new_cases where nc: "diff cases = Inr new_cases"
    using diff_Inr_iff by blast
  from fd obtain new_deaths where nd: "diff deaths = Inr new_deaths"
    using diff_Inr_iff by blast
  from fp obtain total_population where tot: "series_sum pop = Inr total_population"
    using series_sum_Inr_iff by blast
  from assms have free: "map_of (columns (DataFrame_dict h)) ''index'' = None
      \<or> map_of (columns (DataFrame_dict h)) ''level_0'' = None"
    by (auto simp add: no_raise_def map_of_columns_DataFrame_dict)
  have "\<exists>df9. reset_index
      (setitem (setitem (setitem (setitem (setitem (setitem (setitem
         \<lparr>index = dates, columns = columns (DataFrame_dict h)\<rparr>
         ''new_cases'' new_cases)
         ''new_deaths'' new_deaths)
         ''growth_rate'' (series_mul_scalar (series_div new_cases (shift 1 cases)) (Fin 100)))
         ''cases_ma7'' (rolling_mean 7 new_cases))
         ''deaths_ma7'' (rolling_mean 7 new_deaths))
         ''cases_per_million'' (series_mul_scalar (series_div_scalar cases total_population) (Fin 1000000)))
         ''deaths_per_million'' (series_mul_scalar (series_div_scalar deaths total_population) (Fin 1000000))) = Inr df9"
    unfolding reset_index_Inr_iff using free by (simp only: map_of_enriched simp_thms)
  then show ?thesis
    unfolding transform_data_def Let_def
    by (auto simp add: d cs ds nc nd pop tot and_then_Inr getitem_setitem_same
        getitem_setitem_other getitem_reindexed)
qed

lemma transform_data_returns_iff:
  "(\<exists>out. transform_data parse h c = Inr out) \<longleftrightarrow> no_raise parse h c"
proof
  assume "\<exists>out. transform_data parse h c = Inr out"
  then obtain out where "transform_data parse h c = Inr out" ..
  from transform_data_Inr [OF this]
  obtain dates cases deaths new_cases new_deaths population total_population df9 where
    d: "to_datetime parse (index (DataFrame_dict h)) = Inr dates"
    and cs: "getitem (DataFrame_dict h) ''cases'' = Inr cases"
    and ds: "getitem (DataFrame_dict h) ''deaths'' = Inr deaths"
    and nc: "diff cases = Inr new_cases"
    and nd: "diff deaths = Inr new_deaths"
    and pop: "getitem (DataFrame_records c) ''population'' = Inr population"
    and tot: "series_sum population = Inr total_population"
    and r: "reset_index
      (setitem (setitem (setitem (setitem (setitem (setitem (setitem
         \<lparr>index = dates, columns = columns (DataFrame_dict h)\<rparr>
         ''new_cases'' new_cases)
         ''new_deaths'' new_deaths)
         ''growth_rate'' (series_mul_scalar (series_div new_cases (shift 1 cases)) (Fin 100)))
         ''cases_ma7'' (rolling_mean 7 new_cases))
         ''deaths_ma7'' (rolling_mean 7 new_deaths))
         ''cases_per_million'' (series_mul_scalar (series_div_scalar cases total_population) (Fin 1000000)))
         ''deaths_per_million'' (series_mul_scalar (series_div_scalar deaths total_population) (Fin 1000000))) = Inr df9"
    by (elim exE conjE)
  have "map_of (columns (DataFrame_dict h)) ''index'' = None
      \<or> map_of (columns (DataFrame_dict h)) ''level_0'' = None"
    using r reset_index_Inr_iff map_of_enriched by (metis (no_types, lifting))
  then have free: "map_of h ''index'' = None \<or> map_of h ''level_0'' = None"
    by (auto simp add: map_of_columns_DataFrame_dict)
  have parsed: "\<forall>k \<in> set (index (DataFrame_dict h)). parse k \<noteq> None"
    using d to_datetime_Inr_iff by metis
  have "list_all fits_int64 cases" "list_all fits_int64 deaths" "list_all fits_int64 population"
    using diff_fits [OF nc] diff_fits [OF nd] tot series_sum_Inr_iff by blast+
  with free parsed show "no_raise parse h c"
    unfolding no_raise_def by (simp add: cs ds pop)
next
  assume "no_raise parse h c"
  then show "\<exists>out. transform_data parse h c = Inr out"
    by (rule transform_data_returns)
qed



section \<open>Runs on small inputs\<close>

lemma two_day_run:
  "transform_data (map_of [(''1/22/20'', 22::nat), (''1/23/20'', 23)])
     [(''cases'', [(''1/22/20'', 1), (''1/23/20'', 3)]),
      (''deaths'', [(''1/22/20'', 0), (''1/23/20'', 1)])]
     [[(''population'', Some 1000000)]]
   = Inr \<lparr>index = [0, 1],
        columns =
          [(''date'', [Timestamp 22, Timestamp 23]),
           (''cases'', [Number (Fin 1), Number (Fin 3)]),
           (''deaths'', [Number (Fin 0), Number (Fin 1)]),
           (''new_cases'', [Number NaN, Number (Fin 2)]),
           (''new_deaths'', [Number NaN, Number (Fin 1)]),
           (''growth_rate'', [Number NaN, Number (Fin 200)]),
           (''cases_ma7'', [Number NaN, Number NaN]),
           (''deaths_ma7'', [Number NaN, Number NaN]),
           (''cases_per_million'', [Number (Fin 1), Number (Fin 3)]),
           (''deaths_per_million'', [Number (Fin 0), Number (Fin 1)])]\<rparr>"
  by code_simp

section \<open>Daily deltas\<close>





lemma transform_data_lengths:
  assumes "to_datetime parse (index (DataFrame_dict h)) = Inr dates"
    and "getitem (DataFrame_dict h) c = Inr vs"
  shows "length vs = length dates"
  using assms by (simp add: length_getitem_DataFrame_dict to_datetime_length)




section \<open>Moving averages\<close>




section \<open>Growth rate\<close>







section \<open>Per-million metrics with a zero population\<close>







lemma length_per_million:
  "length (series_mul_scalar (series_div_scalar xs t) k) = length xs"
  by (simp add: series_mul_scalar_def series_div_scalar_def)






section \<open>Total population\<close>





section \<open>The first record\<close>


lemma length_growth_rate:
  "diff xs = Inr ds \<Longrightarrow> length (series_mul_scalar (series_div ds (shift 1 xs)) k) = length xs"
  by (simp add: series_mul_scalar_def series_div_def length_diff length_shift)






section \<open>Columns of the result\<close>

lemma columns_rename:
  "map fst (columns (rename m df))
   = map (\<lambda>k. case m k of None \<Rightarrow> k | Some k' \<Rightarrow> k') (map fst (columns df))"
  by (simp add: rename_def case_prod_unfold)














section \<open>Order of the records\<close>









section \<open>Empty input\<close>

lemma values_reset_index:
  assumes "reset_index df = Inr df9"
  shows "map snd (columns df9) = map Timestamp (index df) # map (map Number) (map snd (columns df))"
proof -
  have "map snd (map (\<lambda>(c, vs). (c, map Number vs)) cs) = map (map Number) (map snd cs)"
    for cs :: "(string \<times> val list) list"
    by (induction cs) auto
  then show ?thesis
    using assms by (auto simp add: reset_index_def Let_def split: if_splits)
qed

lemma values_rename: "map snd (columns (rename m df)) = map snd (columns df)"
  by (simp add: rename_def case_prod_unfold)

lemma lengths_setitem:
  fixes df :: "('i, 'c) dataframe"
  assumes "\<forall>vs \<in> snd ` set (columns df). length vs = n" "length v = n"
  shows "\<forall>vs \<in> snd ` set (columns (setitem df c v)). length vs = n"
proof -
  have "snd ` set (AList.update c v al) \<subseteq> insert v (snd ` set al)" for al :: "(string \<times> 'c list) list"
    by (induction al) auto
  then show ?thesis
    using assms unfolding setitem_def by fastforce
qed

lemma lengths_DataFrame_dict:
  "\<forall>vs \<in> snd ` set (columns (DataFrame_dict h)). length vs = length (index (DataFrame_dict h))"
  by (auto simp add: DataFrame_dict_def Let_def)

lemma columns_lengths:
  assumes ok: "transform_data parse h c = Inr out"
  shows "\<forall>vs \<in> snd ` set (columns out). length vs = length (index out)"
proof -
  obtain dates cases deaths new_cases new_deaths population total_population where
    d: "to_datetime parse (index (DataFrame_dict h)) = Inr dates"
    and cs0: "getitem (DataFrame_dict h) ''cases'' = Inr cases"
    and ds0: "getitem (DataFrame_dict h) ''deaths'' = Inr deaths"
    and dc: "diff cases = Inr new_cases"
    and dd: "diff deaths = Inr new_deaths"
    and pop: "getitem (DataFrame_records c) ''population'' = Inr population"
    and tot: "series_sum population = Inr total_population"
    by (rule transform_data_sources [OF ok])
  from transform_data_frame [OF ok d cs0 ds0 dc dd pop tot] obtain df9 where
    r: "reset_index
      (setitem (setitem (setitem (setitem (setitem (setitem (setitem
         \<lparr>index = dates, columns = columns (DataFrame_dict h)\<rparr>
         ''new_cases'' new_cases)
         ''new_deaths'' new_deaths)
         ''growth_rate'' (series_mul_scalar (series_div new_cases (shift 1 cases)) (Fin 100)))
         ''cases_ma7'' (rolling_mean 7 new_cases))
         ''deaths_ma7'' (rolling_mean 7 new_deaths))
         ''cases_per_million'' (series_mul_scalar (series_div_scalar cases total_population) (Fin 1000000)))
         ''deaths_per_million'' (series_mul_scalar (series_div_scalar deaths total_population) (Fin 1000000))) = Inr df9"
      (is "reset_index ?d8 = _")
    and out: "out = rename [''index'' \<mapsto> ''date''] df9"
    by (elim exE conjE)
  define n where "n = length dates"
  have lc: "length cases = n" and ld: "length deaths = n"
    using transform_data_lengths [OF d cs0] transform_data_lengths [OF d ds0] by (simp_all add: n_def)
  have lnc: "length new_cases = n" and lnd: "length new_deaths = n"
    using length_diff [OF dc] length_diff [OF dd] lc ld by simp_all
  have base: "\<forall>vs \<in> snd ` set (columns \<lparr>index = dates, columns = columns (DataFrame_dict h)\<rparr>).
      length vs = n"
    using lengths_DataFrame_dict [of h] to_datetime_length [OF d] by (simp add: n_def)
  have all8: "\<forall>vs \<in> snd ` set (columns ?d8). length vs = n"
    by (intro lengths_setitem base)
       (simp_all add: lc ld lnc lnd length_rolling_mean length_growth_rate [OF dc]
          length_per_million del: One_nat_def)
  define d8 where "d8 = ?d8"
  have idx8: "index d8 = dates"
    unfolding d8_def by (simp add: index_setitem)
  from r have r': "reset_index d8 = Inr df9"
    by (simp only: d8_def)
  have "map snd (columns out) = map Timestamp dates # map (map Number) (map snd (columns d8))"
    by (simp only: out values_rename values_reset_index [OF r'] idx8)
  then have "snd ` set (columns out)
      = insert (map Timestamp dates) (map Number ` snd ` set (columns d8))"
    by (metis image_set list.simps(15))
  moreover have "index out = [0..<n]"
    using index_reset_index [OF r'] by (simp add: out index_rename idx8 n_def)
  moreover have "\<forall>vs \<in> snd ` set (columns d8). length vs = n"
    using all8 by (simp only: d8_def)
  ultimately show ?thesis
    by (auto simp add: n_def)
qed

lemma keys_DataFrame_dict:
  "set (index (DataFrame_dict h)) = (\<Union>col \<in> snd ` set h. fst ` set col)"
  by (auto simp add: index_DataFrame_dict set_union_indexes case_prod_unfold)

lemma index_DataFrame_dict_empty:
  assumes "\<forall>col \<in> snd ` set h. col = []"
  shows "index (DataFrame_dict h) = []"
proof -
  have "set (index (DataFrame_dict h)) = {}"
    using assms by (simp add: keys_DataFrame_dict)
  then show ?thesis by simp
qed

lemma fits_int64_cell_of_record:
  assumes "\<forall>n. map_of row c = Some (Some n) \<longrightarrow> int64 n"
  shows "fits_int64 (cell_of_record row c)"
proof (cases "\<exists>n. map_of row c = Some (Some n)")
  case True
  then obtain n where n: "map_of row c = Some (Some n)" ..
  then have "cell_of_record row c = Fin (of_int n)"
    by (simp add: cell_of_record_def)
  with assms n show ?thesis
    by (simp only: fits_int64_of_int)
next
  case False
  then have "cell_of_record row c = NaN"
    by (auto simp add: cell_of_record_def split: option.splits)
  then show ?thesis by simp
qed

lemma empty_series_no_raise:
  assumes "map_of h ''cases'' \<noteq> None" and "map_of h ''deaths'' \<noteq> None"
    and "\<forall>col \<in> snd ` set h. col = []"
    and "\<exists>row \<in> set c. map_of row ''population'' \<noteq> None"
    and "\<forall>row \<in> set c. \<forall>n. map_of row ''population'' = Some (Some n) \<longrightarrow> int64 n"
    and "map_of h ''index'' = None \<or> map_of h ''level_0'' = None"
  shows "no_raise parse h c"
proof -
  have idx: "index (DataFrame_dict h) = []"
    by (rule index_DataFrame_dict_empty [OF assms(3)])
  have cs: "getitem (DataFrame_dict h) ''cases'' = Inr []"
    using assms(1) by (auto simp add: getitem_DataFrame_dict idx)
  have ds: "getitem (DataFrame_dict h) ''deaths'' = Inr []"
    using assms(2) by (auto simp add: getitem_DataFrame_dict idx)
  have pop: "getitem (DataFrame_records c) ''population''
             = Inr (map (\<lambda>row. cell_of_record row ''population'') c)"
    using assms(4) by (simp add: getitem_DataFrame_records)
  have fits: "list_all fits_int64 (map (\<lambda>row. cell_of_record row ''population'') c)"
    using assms(5) by (simp add: list_all_iff fits_int64_cell_of_record)
  show ?thesis
    unfolding no_raise_def using assms(6) by (simp add: idx cs ds pop fits)
qed

text \<open>
  Claim C5, as the code has it. When the historical input has no date at all but has
  its series (every series is empty, \<open>cases\<close> and \<open>deaths\<close> among them), some country
  entry has a \<open>population\<close> field, every population fits \<open>int64\<close>, and the input has
  not both a series named \<open>index\<close> and one named \<open>level_0\<close>, the call returns a table
  with no record: the index is empty and so is every column. The input that is the
  empty dict, which has no \<open>cases\<close> series, raises \<open>KeyError\<close> at the first
  \<open>df['cases']\<close>.
\<close>

theorem empty_input:
  assumes "map_of historical_data ''cases'' \<noteq> None"
    and "map_of historical_data ''deaths'' \<noteq> None"
    and "\<forall>col \<in> snd ` set historical_data. col = []"
    and "\<exists>row \<in> set countries_data. map_of row ''population'' \<noteq> None"
    and "\<forall>row \<in> set countries_data. \<forall>n. map_of row ''population'' = Some (Some n) \<longrightarrow> int64 n"
    and "map_of historical_data ''index'' = None \<or> map_of historical_data ''level_0'' = None"
  shows "(\<exists>out. transform_data parse historical_data countries_data = Inr out \<and>
            index out = [] \<and> (\<forall>vs \<in> snd ` set (columns out). vs = [])) \<and>
         transform_data parse [] countries_data = Inl (KeyError ''cases'')"
proof
  from transform_data_returns [OF empty_series_no_raise [OF assms]] obtain out where
    ok: "transform_data parse historical_data countries_data = Inr out" ..
  obtain dates cases deaths new_cases new_deaths population total_population where
    d: "to_datetime parse (index (DataFrame_dict historical_data)) = Inr dates"
    and cs0: "getitem (DataFrame_dict historical_data) ''cases'' = Inr cases"
    and ds0: "getitem (DataFrame_dict historical_data) ''deaths'' = Inr deaths"
    and dc: "diff cases = Inr new_cases"
    and dd: "diff deaths = Inr new_deaths"
    and pop: "getitem (DataFrame_records countries_data) ''population'' = Inr population"
    and tot: "series_sum population = Inr total_population"
    by (rule transform_data_sources [OF ok])
  note cols = transform_data_columns [OF ok d cs0 ds0 dc dd pop tot]
  note idx = cols(1) and cs = cols(2) and ds = cols(3) and nc = cols(4) and nd = cols(5)
    and gr = cols(6) and mc = cols(7) and md = cols(8) and cpm = cols(9) and dpm = cols(10)
  have "length dates = 0"
    using to_datetime_length [OF d] index_DataFrame_dict_empty [OF assms(3)] by simp
  then have empty: "index out = []"
    by (simp add: idx)
  with columns_lengths [OF ok] have "\<forall>vs \<in> snd ` set (columns out). vs = []"
    by simp
  with ok empty show "\<exists>out. transform_data parse historical_data countries_data = Inr out \<and>
            index out = [] \<and> (\<forall>vs \<in> snd ` set (columns out). vs = [])"
    by blast
next
  show "transform_data parse [] countries_data = Inl (KeyError ''cases'')"
    by (simp add: transform_data_def DataFrame_dict_def union_indexes_def and_then_def
        getitem_def Let_def)
qed

theorem empty_input_counterexample:
  "transform_data (map_of [(''1/22/20'', 22::nat), (''1/23/20'', 23)])
     []
     [[(''population'', Some 1000000)]]
   = Inl (KeyError ''cases'')"
  by code_simp

theorem empty_input_witness:
  "\<exists>out. transform_data (map_of [(''1/22/20'', 22::nat), (''1/23/20'', 23)])
            [(''cases'', []), (''deaths'', [])]
            [[(''population'', Some 1000000)]] = Inr out \<and>
         index out = [] \<and> getitem out ''cases'' = Inr [] \<and> getitem out ''cases_ma7'' = Inr []"
  (is "\<exists>out. transform_data ?p ?h ?c = Inr out \<and> _")
proof -
  have h1: "map_of ?h ''cases'' \<noteq> None" and h2: "map_of ?h ''deaths'' \<noteq> None"
    and h3: "\<forall>col \<in> snd ` set ?h. col = []"
    and h4: "\<exists>row \<in> set ?c. map_of row ''population'' \<noteq> None"
    and h5: "\<forall>row \<in> set ?c. \<forall>n. map_of row ''population'' = Some (Some n) \<longrightarrow> int64 n"
    and h6: "map_of ?h ''index'' = None \<or> map_of ?h ''level_0'' = None"
    by (simp_all add: int64_def)
  from empty_input [where parse = ?p, OF h1 h2 h3 h4 h5 h6, THEN conjunct1] obtain out where
    ok: "transform_data ?p ?h ?c = Inr out"
    and idx: "index out = []"
    and cols: "\<forall>vs \<in> snd ` set (columns out). vs = []"
    by (elim exE conjE)
  obtain dates cases deaths new_cases new_deaths population total_population where
    "to_datetime ?p (index (DataFrame_dict ?h)) = Inr dates"
    "getitem (DataFrame_dict ?h) ''cases'' = Inr cases"
    "getitem (DataFrame_dict ?h) ''deaths'' = Inr deaths"
    "diff cases = Inr new_cases"
    "diff deaths = Inr new_deaths"
    "getitem (DataFrame_records ?c) ''population'' = Inr population"
    "series_sum population = Inr total_population"
    by (rule transform_data_sources [OF ok])
  note src = transform_data_columns [OF ok this]
  have c: "getitem out ''cases'' = Inr (map Number cases)"
    and m: "getitem out ''cases_ma7'' = Inr (map Number (rolling_mean 7 new_cases))"
    by (rule src)+
  have "vs = []" if "getitem out name = Inr vs" for name vs
  proof -
    from that have "map_of (columns out) name = Some vs"
      by (simp add: getitem_Inr_iff)
    then have "(name, vs) \<in> set (columns out)"
      by (rule map_of_SomeD)
    then have "vs \<in> snd ` set (columns out)"
      by force
    with cols show ?thesis by blast
  qed
  from this [OF c] this [OF m] c m
  have "getitem out ''cases'' = Inr []" "getitem out ''cases_ma7'' = Inr []"
    by simp_all
  with ok idx show ?thesis by blast
qed

section \<open>What the transformation changes\<close>

lemma writes_above_seq:
  assumes "writes_above n Q p" "\<And>x. Q x \<Longrightarrow> writes_above n R (f x)"
  shows "writes_above n R (seq p f)"
  unfolding writes_above_def
proof (intro allI impI)
  fix s y s' assume a: "n \<le> next_free s \<and> seq p f s = Inr (y, s')"
  then obtain x s1 where p: "p s = Inr (x, s1)" and f: "f x s1 = Inr (y, s')"
    by (auto simp add: seq_def split: sum.splits)
  from assms(1) a p have 1: "n \<le> next_free s1" "\<forall>a < n. objects s1 a = objects s a" "Q x"
    by (auto simp add: writes_above_def)
  from assms(2) [OF 1(3)] 1(1) f
  have "n \<le> next_free s'" "\<forall>a < n. objects s' a = objects s1 a" "R y"
    by (auto simp add: writes_above_def)
  with 1 show "n \<le> next_free s' \<and> (\<forall>a<n. objects s' a = objects s a) \<and> R y"
    by simp
qed

lemma writes_above_return: "R x \<Longrightarrow> writes_above n R (return x)"
  by (simp add: writes_above_def return_def)

lemma writes_above_lift: "writes_above n (\<lambda>_. True) (lift r)"
  by (auto simp add: writes_above_def lift_def split: sum.splits)

lemma writes_above_new: "writes_above n (\<lambda>a. n \<le> a) (new obj)"
  by (auto simp add: writes_above_def new_def)

lemma writes_above_put: "n \<le> a \<Longrightarrow> writes_above n (\<lambda>_. True) (put a obj)"
  by (auto simp add: writes_above_def put_def)

lemma writes_above_load:
  "writes_above n (\<lambda>_. True) (load_dict a)"
  "writes_above n (\<lambda>_. True) (load_list a)"
  "writes_above n (\<lambda>_. True) (load_frame a)"
  "writes_above n (\<lambda>_. True) (load_dated a)"
  "writes_above n (\<lambda>_. True) (load_countries a)"
  "writes_above n (\<lambda>_. True) (load_result a)"
  by (auto simp add: writes_above_def load_dict_def load_list_def load_frame_def load_dated_def
      load_countries_def load_result_def split: option.splits object.splits)

lemma writes_above_setitem_at:
  "n \<le> a \<Longrightarrow> writes_above n (\<lambda>_. True) (setitem_at a c rhs)"
  unfolding setitem_at_def
  apply (rule writes_above_seq, rule writes_above_load)
  apply (rule writes_above_seq, rule writes_above_lift)
  apply (rule writes_above_put, assumption)
  done

lemma writes_above_transform_data_store:
  "writes_above n (\<lambda>result. n \<le> result) (transform_data_store parse historical_data countries_data)"
  unfolding transform_data_store_def Let_def
  apply ((rule writes_above_seq,
          (rule writes_above_load writes_above_lift writes_above_new
           | (rule writes_above_put writes_above_setitem_at, assumption)))+)
  apply (rule writes_above_return, assumption)
  done

lemma setitem_at_run:
  assumes "objects s a = Some (DatedFrame df)" "rhs df = Inr vs"
  shows "setitem_at a c rhs s = Inr ((), s\<lparr>objects := (objects s)(a \<mapsto> DatedFrame (setitem df c vs))\<rparr>)"
  using assms by (simp add: setitem_at_def seq_def load_dated_def lift_def put_def)

lemma seq_run: "p s = Inr (x, s1) \<Longrightarrow> seq p f s = f x s1"
  by (simp add: seq_def)

lemma transform_data_store_returns:
  assumes hd: "objects s historical_data = Some (Dict h)"
    and cd: "objects s countries_data = Some (List c)"
    and lt: "historical_data < next_free s" "countries_data < next_free s"
    and ok: "transform_data parse h c = Inr out"
  shows "\<exists>s'. transform_data_store parse historical_data countries_data s
               = Inr (Suc (Suc (next_free s)), s') \<and>
              objects s' (Suc (Suc (next_free s))) = Some (ResultFrame out)"
proof -
  obtain dates cases deaths new_cases new_deaths population total_population where
    d: "to_datetime parse (index (DataFrame_dict h)) = Inr dates"
    and cs0: "getitem (DataFrame_dict h) ''cases'' = Inr cases"
    and ds0: "getitem (DataFrame_dict h) ''deaths'' = Inr deaths"
    and dc: "diff cases = Inr new_cases"
    and dd: "diff deaths = Inr new_deaths"
    and pop: "getitem (DataFrame_records c) ''population'' = Inr population"
    and tot: "series_sum population = Inr total_population"
    by (rule transform_data_sources [OF ok])
  from transform_data_frame [OF ok d cs0 ds0 dc dd pop tot] obtain df9 where
    r: "reset_index
      (setitem (setitem (setitem (setitem (setitem (setitem (setitem
         \<lparr>index = dates, columns = columns (DataFrame_dict h)\<rparr>
         ''new_cases'' new_cases)
         ''new_deaths'' new_deaths)
         ''growth_rate'' (series_mul_scalar (series_div new_cases (shift 1 cases)) (Fin 100)))
         ''cases_ma7'' (rolling_mean 7 new_cases))
         ''deaths_ma7'' (rolling_mean 7 new_deaths))
         ''cases_per_million'' (series_mul_scalar (series_div_scalar cases total_population) (Fin 1000000)))
         ''deaths_per_million'' (series_mul_scalar (series_div_scalar deaths total_population) (Fin 1000000))) = Inr df9"
    and out: "out = rename [''index'' \<mapsto> ''date''] df9"
    by (elim exE conjE)
  define n where "n = next_free s"
  have ne: "historical_data \<noteq> n" "countries_data \<noteq> n" "countries_data \<noteq> Suc n"
    using lt by (simp_all add: n_def)
  let ?df1 = "\<lparr>index = dates, columns = columns (DataFrame_dict h)\<rparr>"
  let ?df2 = "setitem ?df1 ''new_cases'' new_cases"
  let ?df3 = "setitem ?df2 ''new_deaths'' new_deaths"
  let ?df4 = "setitem ?df3 ''growth_rate''
                (series_mul_scalar (series_div new_cases (shift 1 cases)) (Fin 100))"
  let ?df5 = "setitem ?df4 ''cases_ma7'' (rolling_mean 7 new_cases)"
  let ?df6 = "setitem ?df5 ''deaths_ma7'' (rolling_mean 7 new_deaths)"
  let ?df7 = "setitem ?df6 ''cases_per_million''
                (series_mul_scalar (series_div_scalar cases total_population) (Fin 1000000))"
  let ?df8 = "setitem ?df7 ''deaths_per_million''
                (series_mul_scalar (series_div_scalar deaths total_population) (Fin 1000000))"
  let ?init = "\<lparr>objects = (objects s)(n \<mapsto> DatedFrame ?df1,
                                        Suc n \<mapsto> CountryFrame (DataFrame_records c)),
               next_free = Suc (Suc n)\<rparr>"
  let ?st = "\<lambda>df. \<lparr>objects = (objects s)(Suc n \<mapsto> CountryFrame (DataFrame_records c),
                                         n \<mapsto> DatedFrame df),
                    next_free = Suc (Suc n)\<rparr>"
  note gs = getitem_setitem_same getitem_setitem_other getitem_reindexed and_then_Inr cs0 ds0 dc dd
  have run:
    "transform_data_store parse historical_data countries_data s
     = Inr (Suc (Suc n),
            \<lparr>objects = (objects (?st ?df8))(Suc (Suc n) \<mapsto> ResultFrame out),
             next_free = Suc (Suc (Suc n))\<rparr>)"
    unfolding transform_data_store_def Let_def n_def [symmetric]
    apply (subst seq_run [of _ s h s])
     apply (simp add: load_dict_def hd del: One_nat_def)
    apply (subst seq_run [where x = n and ?s1.0 = "\<lparr>objects = (objects s)(n \<mapsto> Frame (DataFrame_dict h)), next_free = Suc n\<rparr>"])
     apply (simp add: new_def n_def del: One_nat_def)
    apply (subst seq_run [where x = "DataFrame_dict h"])
     apply (simp add: load_frame_def del: One_nat_def)
    apply (subst seq_run [where x = dates])
     apply (simp add: lift_def d del: One_nat_def)
    apply (subst seq_run [where x = "()" and ?s1.0 = "\<lparr>objects = (objects s)(n \<mapsto> DatedFrame ?df1), next_free = Suc n\<rparr>"])
     apply (simp add: put_def del: One_nat_def)
    apply (subst seq_run [where x = c])
     apply (simp add: load_list_def cd ne del: One_nat_def)
    apply (subst seq_run [where x = "Suc n" and ?s1.0 = "?init"])
     apply (simp add: new_def del: One_nat_def)
    apply (subst seq_run [where x = "()" and ?s1.0 = "?st ?df2"])
     apply (subst setitem_at_run [where df = ?df1 and vs = new_cases]; simp add: gs del: One_nat_def)
    apply (subst seq_run [where x = "()" and ?s1.0 = "?st ?df3"])
     apply (subst setitem_at_run [where df = ?df2 and vs = new_deaths]; simp add: gs del: One_nat_def)
    apply (subst seq_run [where x = "()" and ?s1.0 = "?st ?df4"])
     apply (subst setitem_at_run [where df = ?df3
          and vs = "series_mul_scalar (series_div new_cases (shift 1 cases)) (Fin 100)"];
        simp add: gs del: One_nat_def)
    apply (subst seq_run [where x = "()" and ?s1.0 = "?st ?df5"])
     apply (subst setitem_at_run [where df = ?df4 and vs = "rolling_mean 7 new_cases"];
        simp add: gs del: One_nat_def)
    apply (subst seq_run [where x = "()" and ?s1.0 = "?st ?df6"])
     apply (subst setitem_at_run [where df = ?df5 and vs = "rolling_mean 7 new_deaths"];
        simp add: gs del: One_nat_def)
    apply (subst seq_run [where x = "DataFrame_records c"])
     apply (simp add: load_countries_def del: One_nat_def)
    apply (subst seq_run [where x = population])
     apply (simp add: lift_def pop del: One_nat_def)
    apply (subst seq_run [where x = total_population])
     apply (simp add: lift_def tot del: One_nat_def)
    apply (subst seq_run [where x = "()" and ?s1.0 = "?st ?df7"])
     apply (subst setitem_at_run [where df = ?df6
          and vs = "series_mul_scalar (series_div_scalar cases total_population) (Fin 1000000)"];
        simp add: gs del: One_nat_def)
    apply (subst seq_run [where x = "()" and ?s1.0 = "?st ?df8"])
     apply (subst setitem_at_run [where df = ?df7
          and vs = "series_mul_scalar (series_div_scalar deaths total_population) (Fin 1000000)"];
        simp add: gs del: One_nat_def)
    apply (subst seq_run [where x = ?df8])
     apply (simp add: load_dated_def del: One_nat_def)
    apply (subst seq_run [where x = df9])
     apply (simp add: lift_def r del: One_nat_def)
    apply (subst seq_run [where x = "Suc (Suc n)"
          and ?s1.0 = "\<lparr>objects = (objects (?st ?df8))(Suc (Suc n) \<mapsto> ResultFrame df9),
                          next_free = Suc (Suc (Suc n))\<rparr>"])
     apply (simp add: new_def del: One_nat_def)
    apply (subst seq_run [where x = df9])
     apply (simp add: load_result_def del: One_nat_def)
    apply (subst seq_run [where x = "()"
          and ?s1.0 = "\<lparr>objects = (objects (?st ?df8))(Suc (Suc n) \<mapsto> ResultFrame out),
                          next_free = Suc (Suc (Suc n))\<rparr>"])
     apply (simp add: put_def out del: One_nat_def)
    apply (simp add: return_def del: One_nat_def)
    done
  then show ?thesis
    by (simp add: n_def)
qed

text \<open>
  Claim C10. A call of \<open>transform_data\<close> that returns leaves its two arguments as they
  were: the object at the address of the historical data and the object at the address
  of the country data are the same after the call, and so is every other object that
  existed before it. Everything the call writes, it writes into frames it has made
  itself; the frame it returns is one of them.
\<close>

theorem inputs_unchanged:
  assumes "transform_data_store parse historical_data countries_data s = Inr (result, s')"
    and "historical_data < next_free s" and "countries_data < next_free s"
  shows "objects s' historical_data = objects s historical_data \<and>
         objects s' countries_data = objects s countries_data \<and>
         (\<forall>a < next_free s. objects s' a = objects s a) \<and>
         next_free s \<le> result"
  using writes_above_transform_data_store [of "next_free s" parse historical_data countries_data]
    assms
  unfolding writes_above_def by blast

theorem inputs_unchanged_witness:
  "\<exists>result s'.
     transform_data_store (map_of [(''1/22/20'', 22::nat), (''1/23/20'', 23)]) 0 1
       \<lparr>objects = [0 \<mapsto> Dict [(''cases'', [(''1/22/20'', 1), (''1/23/20'', 3)]),
                              (''deaths'', [(''1/22/20'', 0), (''1/23/20'', 1)])],
                   1 \<mapsto> List [[(''population'', Some 1000000)]]],
        next_free = 2\<rparr> = Inr (result, s') \<and>
     result = 4 \<and>
     objects s' 0 = Some (Dict [(''cases'', [(''1/22/20'', 1), (''1/23/20'', 3)]),
                               (''deaths'', [(''1/22/20'', 0), (''1/23/20'', 1)])]) \<and>
     objects s' 1 = Some (List [[(''population'', Some 1000000)]])"
  (is "\<exists>result s'. transform_data_store ?p 0 1 ?s = Inr (result, s') \<and> _ \<and>
        objects s' 0 = Some (Dict ?h) \<and> objects s' 1 = Some (List ?c)")
proof -
  have h: "objects ?s 0 = Some (Dict ?h)" and c: "objects ?s 1 = Some (List ?c)"
    and lt: "0 < next_free ?s" "1 < next_free ?s"
    by simp_all
  from transform_data_store_returns [OF h c lt two_day_run] obtain s' where
    run: "transform_data_store ?p 0 1 ?s = Inr (Suc (Suc (next_free ?s)), s')"
    by (elim exE conjE)
  have four: "Suc (Suc (next_free ?s)) = 4"
    by simp
  from inputs_unchanged [OF run lt] have "objects s' 0 = objects ?s 0" "objects s' 1 = objects ?s 1"
    by simp_all
  then have same: "objects s' 0 = Some (Dict ?h)" "objects s' 1 = Some (List ?c)"
    by (simp_all only: h c)
  show ?thesis
    by (intro exI [of _ 4] exI [of _ s'] conjI) (simp_all only: run [unfolded four] same)
qed


end
